theory Spec2Isabelle
  imports Complex_Main "HOL-Library.Char_ord" "HOL-Library.List_Lexorder" "HOL-Library.AList"
begin

section \<open>Python values used by the services\<close>

text \<open>
  A Python \<open>str\<close> is a \<^typ>\<open>string\<close>; a character is read as a code point below 256.
  \<open>None\<close> is \<^term>\<open>None\<close>, so a \<open>str | None\<close> is a \<^typ>\<open>string option\<close>.
\<close>

text \<open>\<open>str.isspace\<close> on one character: the code points that \<open>str.strip()\<close> removes.\<close>

definition isspace :: "char \<Rightarrow> bool" where
  "isspace c = ((of_char c :: nat) \<in> {9, 10, 11, 12, 13, 28, 29, 30, 31, 32, 133, 160})"

text \<open>\<open>s.strip()\<close>: whitespace is removed at both ends, never inside.\<close>

definition strip :: "string \<Rightarrow> string" where
  "strip s = rev (dropWhile isspace (rev (dropWhile isspace s)))"

text \<open>\<open>s.replace(c, new)\<close> for a pattern \<open>c\<close> of one character (the two calls of the
  program, \<open>replace("Z", "+00:00")\<close> and \<open>replace(",", "")\<close>, are of this kind).\<close>

definition replace_chr :: "char \<Rightarrow> string \<Rightarrow> string \<Rightarrow> string" where
  "replace_chr c new s = concat (map (\<lambda>x. if x = c then new else [x]) s)"

text \<open>\<open>x or ""\<close> and \<open>x or None\<close> for \<open>x : str | None\<close>: \<open>None\<close> and the empty
  string are the falsy values.\<close>

definition or_empty :: "string option \<Rightarrow> string" where
  "or_empty x = (case x of None \<Rightarrow> [] | Some s \<Rightarrow> if s = [] then [] else s)"

definition or_none :: "string option \<Rightarrow> string option" where
  "or_none x = (case x of None \<Rightarrow> None | Some s \<Rightarrow> if s = [] then None else Some s)"

text \<open>\<open>str(n)\<close> for a natural number, as an f-string prints a counter or an index.\<close>

definition digit_char :: "nat \<Rightarrow> char" where
  "digit_char n = ''0123456789'' ! (n mod 10)"

function str_nat :: "nat \<Rightarrow> string" where
  "str_nat n = (if n < 10 then [digit_char n] else str_nat (n div 10) @ [digit_char n])"
  by pat_completeness auto
termination
  by (relation "measure id") auto

declare str_nat.simps [simp del]

text \<open>\<open>datetime.date\<close>: year, month, day. Dates are ordered as Python orders them,
  by year, then month, then day.\<close>

datatype date = Date (year: nat) (month: nat) (day: nat)

definition date_less :: "date \<Rightarrow> date \<Rightarrow> bool" where
  "date_less a b = (year a < year b \<or> (year a = year b \<and>
     (month a < month b \<or> (month a = month b \<and> day a < day b))))"

text \<open>\<open>d.isoformat()\<close>: \<open>YYYY-MM-DD\<close>, zero padded.\<close>

definition zpad :: "nat \<Rightarrow> string \<Rightarrow> string" where
  "zpad w s = replicate (w - length s) (CHR ''0'') @ s"

definition isoformat :: "date \<Rightarrow> string" where
  "isoformat d = zpad 4 (str_nat (year d)) @ ''-'' @ zpad 2 (str_nat (month d)) @ ''-''
     @ zpad 2 (str_nat (day d))"

text \<open>A Python \<open>float\<close>: \<open>Finite r\<close> is the binary64 number nearest to \<open>r\<close>; the three
  other values are the ones \<open>math.isfinite\<close> rejects.\<close>

datatype pyfloat = Finite rat | PosInf | NegInf | NaN

definition isfinite :: "pyfloat \<Rightarrow> bool" where
  "isfinite x = (case x of Finite r \<Rightarrow> True | _ \<Rightarrow> False)"

text \<open>A decoded JSON value, as \<open>json.load\<close> returns it. A \<open>dict\<close> keeps its keys in
  insertion order, so an object is an association list. The services never compute with a
  float of the document (they pass it on or call \<open>str()\<close> on it), so a float is kept as the
  text that \<open>repr\<close> prints for it.\<close>

datatype json = JNull | JBool bool | JInt int | JFloat string | JStr string
  | JArr "json list" | JObj "(string \<times> json) list"

section \<open>The standard library, as the services call it\<close>

text \<open>
  The services call four functions of the Python library on text; each either returns or
  raises \<open>ValueError\<close>, which is \<^term>\<open>None\<close> here:
  \<^item> \<open>fromisoformat s\<close> is \<open>datetime.fromisoformat(s).date()\<close>;
  \<^item> \<open>strptime s fmt\<close> is \<open>datetime.strptime(s, fmt).date()\<close>;
  \<^item> \<open>py_float s\<close> is \<open>float(s)\<close>;
  \<^item> \<open>py_str v\<close> is \<open>str(v)\<close> on a decoded JSON value.
  The services take the library as a parameter, so what is proved of them for every
  library holds for each release of CPython.
\<close>

record pylib =
  fromisoformat :: "string \<Rightarrow> date option"
  strptime :: "string \<Rightarrow> string \<Rightarrow> date option"
  py_float :: "string \<Rightarrow> pyfloat option"
  py_str :: "json \<Rightarrow> string"

section \<open>DateParser\<close>

definition formats :: "string list" where
  "formats = [''%Y/%m/%d'', ''%m/%d/%Y'', ''%d/%m/%Y'', ''%d-%b-%y'', ''%d-%b-%Y'']"

text \<open>The \<open>for fmt in (...)\<close> loop: the first format that \<open>strptime\<close> accepts returns.\<close>

fun try_formats :: "pylib \<Rightarrow> string \<Rightarrow> string list \<Rightarrow> date option" where
  "try_formats L text [] = None"
| "try_formats L text (fmt # fmts) =
     (case strptime L text fmt of
        Some d \<Rightarrow> Some d
      | None \<Rightarrow> try_formats L text fmts)"

definition parse :: "pylib \<Rightarrow> string option \<Rightarrow> date option" where
  "parse L v =
     (case v of
        None \<Rightarrow> None
      | Some s \<Rightarrow>
          (let text = strip s in
           if text = [] then None
           else (case fromisoformat L (replace_chr (CHR ''Z'') ''+00:00'' text) of
                   Some d \<Rightarrow> Some d
                 | None \<Rightarrow> try_formats L text formats)))"

section \<open>ValidationError, DataPaths and the files\<close>

text \<open>\<open>ValidationError(message, status_code=400)\<close>: the one exception of the services.\<close>

datatype validation_error = ValidationError (message: string) (status_code: nat)

type_synonym path = string

record data_paths =
  prices :: path
  alt_prices :: path
  events :: path
  change_points :: path

text \<open>
  A row of \<open>csv.DictReader\<close>: a \<open>dict\<close> from the header's fields to the cell's text, or
  to \<open>None\<close> where the line is shorter than the header. The files are read, never written:
  \<open>path_exists p\<close> is \<open>p.exists()\<close>, \<open>csv_rows p\<close> is what opening \<open>p\<close> and reading it
  with \<open>csv.DictReader\<close> yields, \<open>json_doc p\<close> what opening it and \<open>json.load\<close> yield;
  \<open>Inl\<close> holds the text of the \<open>OSError\<close>, \<open>csv.Error\<close> or \<open>JSONDecodeError\<close> raised.
\<close>

type_synonym row = "string \<rightharpoonup> string option"

record files =
  path_exists :: "path \<Rightarrow> bool"
  csv_rows :: "path \<Rightarrow> string + row list"
  json_doc :: "path \<Rightarrow> string + json"

text \<open>\<open>k in row\<close> and \<open>row.get(k)\<close>.\<close>

definition has_key :: "row \<Rightarrow> string \<Rightarrow> bool" where
  "has_key r k = (r k \<noteq> None)"

definition dict_get :: "row \<Rightarrow> string \<Rightarrow> string option" where
  "dict_get r k = (case r k of None \<Rightarrow> None | Some v \<Rightarrow> v)"

definition quoted :: "string \<Rightarrow> string" where
  "quoted s = [CHR 0x27] @ s @ [CHR 0x27]"

section \<open>CsvTable\<close>

definition read_rows :: "files \<Rightarrow> path \<Rightarrow> validation_error + row list" where
  "read_rows F p =
     (case csv_rows F p of
        Inl exc \<Rightarrow> Inl (ValidationError (''Failed to read CSV: '' @ exc) 400)
      | Inr rows \<Rightarrow> Inr rows)"

section \<open>PriceService\<close>

record price_point =
  pp_date :: string
  pp_price :: pyfloat

definition select_prices_path :: "data_paths \<Rightarrow> files \<Rightarrow> path" where
  "select_prices_path P F = (if path_exists F (prices P) then prices P else alt_prices P)"

definition parse_query_date :: "pylib \<Rightarrow> string \<Rightarrow> string option \<Rightarrow> validation_error + date option"
  where
  "parse_query_date L name raw =
     (case raw of
        None \<Rightarrow> Inr None
      | Some r \<Rightarrow>
          (let text = strip r in
           if text = [] then Inr None
           else (case parse L (Some text) of
                   None \<Rightarrow>
                     Inl (ValidationError (''Invalid '' @ quoted name @ '' date '' @ quoted text
                        @ ''. Use YYYY-MM-DD (recommended).'') 400)
                 | Some parsed \<Rightarrow> Inr (Some parsed))))"

definition parse_query_dates :: "pylib \<Rightarrow> string option \<Rightarrow> string option
    \<Rightarrow> validation_error + date option \<times> date option" where
  "parse_query_dates L start_raw end_raw =
     (case parse_query_date L ''start'' start_raw of
        Inl e \<Rightarrow> Inl e
      | Inr start \<Rightarrow>
          (case parse_query_date L ''end'' end_raw of
             Inl e \<Rightarrow> Inl e
           | Inr endd \<Rightarrow>
               (case (start, endd) of
                  (Some s, Some e) \<Rightarrow>
                    if date_less e s
                    then Inl (ValidationError ''Invalid date range: start must be <= end.'' 400)
                    else Inr (start, endd)
                | _ \<Rightarrow> Inr (start, endd))))"

text \<open>\<open>start and row_date < start\<close>: a bound that is \<open>None\<close> excludes nothing.\<close>

definition before_start :: "date option \<Rightarrow> date \<Rightarrow> bool" where
  "before_start start row_date = (case start of None \<Rightarrow> False | Some s \<Rightarrow> date_less row_date s)"

definition after_end :: "date option \<Rightarrow> date \<Rightarrow> bool" where
  "after_end endd row_date = (case endd of None \<Rightarrow> False | Some e \<Rightarrow> date_less e row_date)"

text \<open>The \<open>for row in rows\<close> loop of \<open>get_prices\<close>; its state is \<open>payload\<close>,
  \<open>invalid_date\<close> and \<open>invalid_price\<close>.\<close>

fun prices_loop :: "pylib \<Rightarrow> date option \<Rightarrow> date option \<Rightarrow> row list
    \<Rightarrow> price_point list \<times> nat \<times> nat \<Rightarrow> price_point list \<times> nat \<times> nat" where
  "prices_loop L start endd [] st = st"
| "prices_loop L start endd (row # rows) (payload, invalid_date, invalid_price) =
     (case parse L (dict_get row ''Date'') of
        None \<Rightarrow> prices_loop L start endd rows (payload, invalid_date + 1, invalid_price)
      | Some row_date \<Rightarrow>
          (case py_float L (strip (replace_chr (CHR '','') [] (or_empty (dict_get row ''Price'')))) of
             None \<Rightarrow> prices_loop L start endd rows (payload, invalid_date, invalid_price + 1)
           | Some price \<Rightarrow>
               if before_start start row_date
               then prices_loop L start endd rows (payload, invalid_date, invalid_price)
               else if after_end endd row_date
               then prices_loop L start endd rows (payload, invalid_date, invalid_price)
               else prices_loop L start endd rows
                      (payload @ [\<lparr>pp_date = isoformat row_date, pp_price = price\<rparr>],
                       invalid_date, invalid_price)))"

definition no_valid_prices :: "nat \<Rightarrow> nat \<Rightarrow> validation_error" where
  "no_valid_prices invalid_date invalid_price =
     ValidationError (''No valid price rows found after parsing. Invalid dates: ''
       @ str_nat invalid_date @ '', invalid prices: '' @ str_nat invalid_price @ ''.'') 400"

definition get_prices :: "pylib \<Rightarrow> data_paths \<Rightarrow> files \<Rightarrow> string option \<Rightarrow> string option
    \<Rightarrow> validation_error + price_point list" where
  "get_prices L P F start_raw end_raw =
     (let prices_path = select_prices_path P F in
      if \<not> path_exists F prices_path
      then Inl (ValidationError ''brent_prices.csv or BrentOilPrices.csv not found'' 404)
      else
        (case read_rows F prices_path of
           Inl e \<Rightarrow> Inl e
         | Inr [] \<Rightarrow> Inr []
         | Inr (row0 # rest) \<Rightarrow>
             if \<not> has_key row0 ''Date'' \<or> \<not> has_key row0 ''Price''
             then Inl (ValidationError ''Expected columns: Date, Price'' 400)
             else
               (case parse_query_dates L start_raw end_raw of
                  Inl e \<Rightarrow> Inl e
                | Inr (start, endd) \<Rightarrow>
                    (case prices_loop L start endd (row0 # rest) ([], 0, 0) of
                       (unsorted, invalid_date, invalid_price) \<Rightarrow>
                         (let payload = sort_key pp_date unsorted in
                          if payload = [] \<and> (invalid_date \<noteq> 0 \<or> invalid_price \<noteq> 0)
                          then Inl (no_valid_prices invalid_date invalid_price)
                          else Inr payload)))))"

section \<open>EventService\<close>

record event_record =
  ev_date :: string
  ev_event :: string
  ev_category :: "string option"

fun events_loop :: "pylib \<Rightarrow> bool \<Rightarrow> row list
    \<Rightarrow> event_record list \<times> nat \<times> nat \<Rightarrow> event_record list \<times> nat \<times> nat" where
  "events_loop L has_category [] st = st"
| "events_loop L has_category (row # rows) (payload, invalid_date, invalid_event) =
     (case parse L (dict_get row ''date'') of
        None \<Rightarrow> events_loop L has_category rows (payload, invalid_date + 1, invalid_event)
      | Some row_date \<Rightarrow>
          (let event = strip (or_empty (dict_get row ''event'')) in
           if event = []
           then events_loop L has_category rows (payload, invalid_date, invalid_event + 1)
           else events_loop L has_category rows
                  (payload @ [\<lparr>ev_date = isoformat row_date, ev_event = event,
                      ev_category = (if has_category then or_none (dict_get row ''category'')
                                     else None)\<rparr>],
                   invalid_date, invalid_event)))"

definition no_valid_events :: "nat \<Rightarrow> nat \<Rightarrow> validation_error" where
  "no_valid_events invalid_date invalid_event =
     ValidationError (''No valid event rows found after parsing. Invalid dates: ''
       @ str_nat invalid_date @ '', invalid events: '' @ str_nat invalid_event @ ''.'') 400"

definition get_events :: "pylib \<Rightarrow> data_paths \<Rightarrow> files \<Rightarrow> validation_error + event_record list"
  where
  "get_events L P F =
     (if \<not> path_exists F (events P) then Inl (ValidationError ''events.csv not found'' 404)
      else
        (case read_rows F (events P) of
           Inl e \<Rightarrow> Inl e
         | Inr [] \<Rightarrow> Inr []
         | Inr (row0 # rest) \<Rightarrow>
             if \<not> has_key row0 ''date'' \<or> \<not> has_key row0 ''event''
             then Inl (ValidationError ''Expected columns: date, event'' 400)
             else
               (case events_loop L (has_key row0 ''category'') (row0 # rest) ([], 0, 0) of
                  (unsorted, invalid_date, invalid_event) \<Rightarrow>
                    (let payload = sort_key ev_date unsorted in
                     if payload = [] \<and> (invalid_date \<noteq> 0 \<or> invalid_event \<noteq> 0)
                     then Inl (no_valid_events invalid_date invalid_event)
                     else Inr payload))))"

section \<open>ChangePointService\<close>

definition optional_keys :: "string list" where
  "optional_keys = [''mean_before'', ''mean_after'', ''impact_pct'', ''notes'']"

text \<open>\<open>for key in (...): if key in cp: normalized_item[key] = cp[key]\<close>. Assigning to a key
  of a \<open>dict\<close> replaces the value in place, or appends the key.\<close>

fun copy_keys :: "(string \<times> json) list \<Rightarrow> string list \<Rightarrow> (string \<times> json) list
    \<Rightarrow> (string \<times> json) list" where
  "copy_keys cp [] normalized_item = normalized_item"
| "copy_keys cp (key # keys) normalized_item =
     copy_keys cp keys
       (case map_of cp key of
          None \<Rightarrow> normalized_item
        | Some v \<Rightarrow> AList.update key v normalized_item)"

text \<open>\<open>self.date_parser.parse(str(cp_date_raw) if cp_date_raw is not None else None)\<close> for
  \<open>cp_date_raw = cp.get("date")\<close>.\<close>

definition cp_date :: "pylib \<Rightarrow> (string \<times> json) list \<Rightarrow> date option" where
  "cp_date L cp =
     parse L (case map_of cp ''date'' of
                None \<Rightarrow> None
              | Some JNull \<Rightarrow> None
              | Some cp_date_raw \<Rightarrow> Some (py_str L cp_date_raw))"

definition not_an_object :: "nat \<Rightarrow> validation_error" where
  "not_an_object idx =
     ValidationError (''change_points['' @ str_nat idx @ ''] must be an object'') 400"

definition date_required :: "nat \<Rightarrow> validation_error" where
  "date_required idx =
     ValidationError (''change_points['' @ str_nat idx
       @ ''].date is required and must be a valid date'') 400"

text \<open>The \<open>for idx, cp in enumerate(cps)\<close> loop; its state is \<open>normalized\<close>.\<close>

fun cp_loop :: "pylib \<Rightarrow> nat \<Rightarrow> json list \<Rightarrow> json list \<Rightarrow> validation_error + json list" where
  "cp_loop L idx [] normalized = Inr normalized"
| "cp_loop L idx (JObj cp # cps) normalized =
     (case cp_date L cp of
        None \<Rightarrow> Inl (date_required idx)
      | Some d \<Rightarrow>
          cp_loop L (idx + 1) cps
            (normalized @ [JObj (copy_keys cp optional_keys [(''date'', JStr (isoformat d))])]))"
| "cp_loop L idx (other # cps) normalized = Inl (not_an_object idx)"

definition get_change_points :: "pylib \<Rightarrow> data_paths \<Rightarrow> files
    \<Rightarrow> validation_error + (string \<times> json) list" where
  "get_change_points L P F =
     (if \<not> path_exists F (change_points P)
      then Inl (ValidationError ''change_points.json not found'' 404)
      else
        (case json_doc F (change_points P) of
           Inl exc \<Rightarrow> Inl (ValidationError (''Failed to read change_points.json: '' @ exc) 400)
         | Inr (JObj payload) \<Rightarrow>
             (case map_of payload ''change_points'' of
                None \<Rightarrow>
                  Inl (ValidationError ''change_points.json missing required key: change_points'' 400)
              | Some JNull \<Rightarrow>
                  Inl (ValidationError ''change_points.json missing required key: change_points'' 400)
              | Some (JArr cps) \<Rightarrow>
                  (case cp_loop L 0 cps [] of
                     Inl e \<Rightarrow> Inl e
                   | Inr normalized \<Rightarrow>
                       Inr (AList.update ''change_points'' (JArr normalized) payload))
              | Some other \<Rightarrow> Inl (ValidationError ''change_points must be a list'' 400))
         | Inr other \<Rightarrow> Inl (ValidationError ''change_points.json must be a JSON object'' 400)))"

section \<open>A model of the library functions in CPython\<close>

text \<open>
  The functions below compute what CPython's library returns, so that the services can be
  run on concrete files. They follow the library's code (\<open>Lib/_strptime.py\<close>,
  \<open>Objects/floatobject.c\<close>, \<open>Objects/unicodeobject.c\<close>) for text of code points below 256
  in the C locale.
\<close>


definition is_digit :: "char \<Rightarrow> bool" where
  "is_digit c = (48 \<le> (of_char c :: nat) \<and> (of_char c :: nat) \<le> 57)"

definition digit_val :: "char \<Rightarrow> nat" where
  "digit_val c = of_char c - 48"

definition in_range :: "char \<Rightarrow> char \<Rightarrow> char \<Rightarrow> bool" where
  "in_range lo hi c = ((of_char lo :: nat) \<le> of_char c \<and> (of_char c :: nat) \<le> of_char hi)"

definition nat_of_digits :: "string \<Rightarrow> nat" where
  "nat_of_digits ds = foldl (\<lambda>n c. 10 * n + digit_val c) 0 ds"

definition lower :: "char \<Rightarrow> char" where
  "lower c = (if in_range (CHR ''A'') (CHR ''Z'') c then char_of ((of_char c :: nat) + 32) else c)"

definition is_leap :: "nat \<Rightarrow> bool" where
  "is_leap y = (y mod 4 = 0 \<and> (y mod 100 \<noteq> 0 \<or> y mod 400 = 0))"

definition days_in_month :: "nat \<Rightarrow> nat \<Rightarrow> nat" where
  "days_in_month y m =
     (if m = 2 then (if is_leap y then 29 else 28)
      else if m \<in> {4, 6, 9, 11} then 30 else 31)"

definition new_date :: "nat \<Rightarrow> nat \<Rightarrow> nat \<Rightarrow> date option" where
  "new_date y m d =
     (if 1 \<le> y \<and> y \<le> 9999 \<and> 1 \<le> m \<and> m \<le> 12 \<and> 1 \<le> d \<and> d \<le> days_in_month y m
      then Some (Date y m d) else None)"

definition cpy_fromisoformat :: "string \<Rightarrow> date option" where
  "cpy_fromisoformat s =
     (let y = take 4 s; m = take 2 (drop 5 s); d = take 2 (drop 8 s) in
      if length s = 10 \<and> s ! 4 = CHR ''-'' \<and> s ! 7 = CHR ''-'' \<and> list_all is_digit (y @ m @ d)
      then new_date (nat_of_digits y) (nat_of_digits m) (nat_of_digits d)
      else None)"

datatype directive = Dir_Y | Dir_m | Dir_d | Dir_b | Dir_y | Lit char

definition directive_of :: "char \<Rightarrow> directive option" where
  "directive_of c =
     (if c = CHR ''Y'' then Some Dir_Y else if c = CHR ''m'' then Some Dir_m
      else if c = CHR ''d'' then Some Dir_d else if c = CHR ''b'' then Some Dir_b
      else if c = CHR ''y'' then Some Dir_y else None)"

fun parse_format :: "string \<Rightarrow> directive list option" where
  "parse_format [] = Some []"
| "parse_format [c] = (if c = CHR ''%'' then None else Some [Lit c])"
| "parse_format (c # x # rest) =
     (if c = CHR ''%''
      then (case directive_of x of
              None \<Rightarrow> None
            | Some d \<Rightarrow> map_option ((#) d) (parse_format rest))
      else map_option ((#) (Lit c)) (parse_format (x # rest)))"

definition alt1 :: "(char \<Rightarrow> bool) \<Rightarrow> (char \<Rightarrow> nat) \<Rightarrow> string \<Rightarrow> (nat \<times> string) list" where
  "alt1 p f s = (case s of a # rest \<Rightarrow> if p a then [(f a, rest)] else [] | _ \<Rightarrow> [])"

definition alt2 :: "(char \<Rightarrow> bool) \<Rightarrow> (char \<Rightarrow> bool) \<Rightarrow> (char \<Rightarrow> char \<Rightarrow> nat) \<Rightarrow> string
    \<Rightarrow> (nat \<times> string) list" where
  "alt2 p q f s =
     (case s of a # b # rest \<Rightarrow> if p a \<and> q b then [(f a b, rest)] else [] | _ \<Rightarrow> [])"

definition month_abbrs :: "string list" where
  "month_abbrs = [''jan'', ''feb'', ''mar'', ''apr'', ''may'', ''jun'', ''jul'', ''aug'',
     ''sep'', ''oct'', ''nov'', ''dec'']"

fun index_of :: "'a \<Rightarrow> 'a list \<Rightarrow> nat option" where
  "index_of x [] = None"
| "index_of x (y # ys) = (if x = y then Some 0 else map_option Suc (index_of x ys))"

fun match_directive :: "directive \<Rightarrow> string \<Rightarrow> (nat \<times> string) list" where
  "match_directive Dir_Y s =
     (if 4 \<le> length s \<and> list_all is_digit (take 4 s)
      then [(nat_of_digits (take 4 s), drop 4 s)] else [])"
| "match_directive Dir_y s =
     alt2 is_digit is_digit
       (\<lambda>a b. let y = nat_of_digits [a, b] in if y \<le> 68 then y + 2000 else y + 1900) s"
| "match_directive Dir_m s =
     alt2 (\<lambda>a. a = CHR ''1'') (in_range (CHR ''0'') (CHR ''2'')) (\<lambda>a b. nat_of_digits [a, b]) s
     @ alt2 (\<lambda>a. a = CHR ''0'') (in_range (CHR ''1'') (CHR ''9'')) (\<lambda>a b. digit_val b) s
     @ alt1 (in_range (CHR ''1'') (CHR ''9'')) digit_val s"
| "match_directive Dir_d s =
     alt2 (\<lambda>a. a = CHR ''3'') (in_range (CHR ''0'') (CHR ''1'')) (\<lambda>a b. nat_of_digits [a, b]) s
     @ alt2 (in_range (CHR ''1'') (CHR ''2'')) is_digit (\<lambda>a b. nat_of_digits [a, b]) s
     @ alt2 (\<lambda>a. a = CHR ''0'') (in_range (CHR ''1'') (CHR ''9'')) (\<lambda>a b. digit_val b) s
     @ alt1 (in_range (CHR ''1'') (CHR ''9'')) digit_val s
     @ alt2 (\<lambda>a. a = CHR '' '') (in_range (CHR ''1'') (CHR ''9'')) (\<lambda>a b. digit_val b) s"
| "match_directive Dir_b s =
     (case index_of (map lower (take 3 s)) month_abbrs of
        None \<Rightarrow> []
      | Some i \<Rightarrow> [(i + 1, drop 3 s)])"
| "match_directive (Lit c) s = alt1 (\<lambda>a. lower a = lower c) (\<lambda>a. 0) s"

fun store :: "directive \<Rightarrow> nat \<Rightarrow> nat \<times> nat \<times> nat \<Rightarrow> nat \<times> nat \<times> nat" where
  "store Dir_Y v (y, m, d) = (v, m, d)"
| "store Dir_y v (y, m, d) = (v, m, d)"
| "store Dir_m v (y, m, d) = (y, v, d)"
| "store Dir_b v (y, m, d) = (y, v, d)"
| "store Dir_d v (y, m, d) = (y, m, v)"
| "store (Lit c) v (y, m, d) = (y, m, d)"

fun match_all :: "directive list \<Rightarrow> string \<Rightarrow> nat \<times> nat \<times> nat
    \<Rightarrow> ((nat \<times> nat \<times> nat) \<times> string) list" where
  "match_all [] s f = [(f, s)]"
| "match_all (d # ds) s f =
     concat (map (\<lambda>(v, rest). match_all ds rest (store d v f)) (match_directive d s))"

definition cpy_strptime :: "string \<Rightarrow> string \<Rightarrow> date option" where
  "cpy_strptime s fmt =
     (case parse_format fmt of
        None \<Rightarrow> None
      | Some ds \<Rightarrow>
          (case match_all ds s (1900, 1, 1) of
             [] \<Rightarrow> None
           | ((y, m, d), rest) # _ \<Rightarrow> if rest = [] then new_date y m d else None))"


definition float_space :: "char \<Rightarrow> bool" where
  "float_space c = ((of_char c :: nat) \<in> {9, 10, 11, 12, 13, 32, 133, 160})"

definition float_strip :: "string \<Rightarrow> string" where
  "float_strip s = rev (dropWhile float_space (rev (dropWhile float_space s)))"

fun underscores_ok :: "char \<Rightarrow> string \<Rightarrow> bool" where
  "underscores_ok prev [] = (prev \<noteq> CHR ''_'')"
| "underscores_ok prev (c # cs) =
     ((if c = CHR ''_'' then is_digit prev
       else if prev = CHR ''_'' then is_digit c else True)
      \<and> underscores_ok c cs)"

definition split_sign :: "string \<Rightarrow> bool \<times> string" where
  "split_sign s =
     (case s of
        [] \<Rightarrow> (False, [])
      | c # cs \<Rightarrow>
          if c = CHR ''-'' then (True, cs) else if c = CHR ''+'' then (False, cs) else (False, s))"

definition parse_exponent :: "string \<Rightarrow> int option" where
  "parse_exponent s =
     (case s of
        [] \<Rightarrow> Some 0
      | c # cs \<Rightarrow>
          if lower c = CHR ''e''
          then (let (neg, ds) = split_sign cs in
                if ds \<noteq> [] \<and> list_all is_digit ds
                then Some (if neg then - int (nat_of_digits ds) else int (nat_of_digits ds))
                else None)
          else None)"

definition pow10 :: "int \<Rightarrow> rat" where
  "pow10 e = (if 0 \<le> e then 10 ^ nat e else 1 / 10 ^ nat (- e))"

definition parse_decimal :: "string \<Rightarrow> rat option" where
  "parse_decimal s =
     (let ip = takeWhile is_digit s;
          r1 = dropWhile is_digit s;
          (fp, r2) = (case r1 of
                        [] \<Rightarrow> ([], [])
                      | c # cs \<Rightarrow>
                          if c = CHR ''.'' then (takeWhile is_digit cs, dropWhile is_digit cs)
                          else ([], r1))
      in if ip = [] \<and> fp = [] then None
         else (case parse_exponent r2 of
                 None \<Rightarrow> None
               | Some e \<Rightarrow> Some (of_nat (nat_of_digits (ip @ fp)) * pow10 (e - int (length fp)))))"

definition cpy_float :: "string \<Rightarrow> pyfloat option" where
  "cpy_float s =
     (let t = float_strip s in
      if \<not> underscores_ok (CHR 0x00) t then None
      else (let (neg, body) = split_sign (filter (\<lambda>c. c \<noteq> CHR ''_'') t);
                lw = map lower body
            in if lw = ''inf'' \<or> lw = ''infinity'' then Some (if neg then NegInf else PosInf)
               else if lw = ''nan'' then Some NaN
               else (case parse_decimal body of
                       None \<Rightarrow> None
                     | Some r \<Rightarrow>
                         Some (if 2 ^ 1024 - 2 ^ 970 \<le> r then (if neg then NegInf else PosInf)
                               else Finite (if neg then - r else r)))))"

definition str_int :: "int \<Rightarrow> string" where
  "str_int i = (if i < 0 then ''-'' @ str_nat (nat (- i)) else str_nat (nat i))"

definition hex_digit :: "nat \<Rightarrow> char" where
  "hex_digit n = ''0123456789abcdef'' ! (n mod 16)"

definition printable :: "char \<Rightarrow> bool" where
  "printable c = (let n = (of_char c :: nat) in (32 \<le> n \<and> n < 127) \<or> (161 \<le> n \<and> n \<noteq> 173))"

definition repr_char :: "char \<Rightarrow> char \<Rightarrow> string" where
  "repr_char q c =
     (if c = q \<or> c = CHR 0x5C then [CHR 0x5C, c]
      else if c = CHR 0x09 then [CHR 0x5C, CHR ''t'']
      else if c = CHR 0x0A then [CHR 0x5C, CHR ''n'']
      else if c = CHR 0x0D then [CHR 0x5C, CHR ''r'']
      else if printable c then [c]
      else [CHR 0x5C, CHR ''x'', hex_digit (of_char c div 16), hex_digit (of_char c)])"

definition repr_str :: "string \<Rightarrow> string" where
  "repr_str s =
     (let q = (if CHR 0x27 \<in> set s \<and> CHR 0x22 \<notin> set s then CHR 0x22 else CHR 0x27)
      in [q] @ concat (map (repr_char q) s) @ [q])"

fun join :: "string \<Rightarrow> string list \<Rightarrow> string" where
  "join sep [] = []"
| "join sep [x] = x"
| "join sep (x # y # ys) = x @ sep @ join sep (y # ys)"

fun cpy_repr :: "json \<Rightarrow> string" where
  "cpy_repr JNull = ''None''"
| "cpy_repr (JBool b) = (if b then ''True'' else ''False'')"
| "cpy_repr (JInt i) = str_int i"
| "cpy_repr (JFloat r) = r"
| "cpy_repr (JStr s) = repr_str s"
| "cpy_repr (JArr xs) = ''['' @ join '', '' (map cpy_repr xs) @ '']''"
| "cpy_repr (JObj kvs) =
     ''{'' @ join '', '' (map (\<lambda>kv. repr_str (fst kv) @ '': '' @ cpy_repr (snd kv)) kvs) @ ''}''"

definition cpy_str :: "json \<Rightarrow> string" where
  "cpy_str v = (case v of JStr s \<Rightarrow> s | _ \<Rightarrow> cpy_repr v)"

definition cpython :: pylib where
  "cpython = \<lparr>fromisoformat = cpy_fromisoformat, strptime = cpy_strptime,
     py_float = cpy_float, py_str = cpy_str\<rparr>"

section \<open>The pipelines, row by row\<close>

text \<open>
  What the two loops do to one row, and which rows they count, stated without the loop.
  \<open>price_text\<close> is \<open>(row.get("Price") or "").replace(",", "").strip()\<close>.
\<close>

definition price_text :: "row \<Rightarrow> string" where
  "price_text row = strip (replace_chr (CHR '','') [] (or_empty (dict_get row ''Price'')))"

definition invalid_date_row :: "pylib \<Rightarrow> string \<Rightarrow> row \<Rightarrow> bool" where
  "invalid_date_row L column row = (parse L (dict_get row column) = None)"

definition invalid_price_row :: "pylib \<Rightarrow> row \<Rightarrow> bool" where
  "invalid_price_row L row =
     (parse L (dict_get row ''Date'') \<noteq> None \<and> py_float L (price_text row) = None)"

definition invalid_event_row :: "pylib \<Rightarrow> row \<Rightarrow> bool" where
  "invalid_event_row L row =
     (parse L (dict_get row ''date'') \<noteq> None \<and> strip (or_empty (dict_get row ''event'')) = [])"

definition price_of_row :: "pylib \<Rightarrow> date option \<Rightarrow> date option \<Rightarrow> row \<Rightarrow> price_point option"
  where
  "price_of_row L start endd row =
     (case parse L (dict_get row ''Date'') of
        None \<Rightarrow> None
      | Some d \<Rightarrow>
          (case py_float L (price_text row) of
             None \<Rightarrow> None
           | Some x \<Rightarrow>
               if before_start start d \<or> after_end endd d then None
               else Some \<lparr>pp_date = isoformat d, pp_price = x\<rparr>))"

text \<open>The category of an emitted event: \<open>None\<close> when the header has no \<open>category\<close> column,
  and also when the cell is missing or empty; otherwise the cell's text as it is.\<close>

definition category_of :: "bool \<Rightarrow> row \<Rightarrow> string option" where
  "category_of has_category row =
     (if has_category
      then (case dict_get row ''category'' of
              None \<Rightarrow> None
            | Some c \<Rightarrow> if c = [] then None else Some c)
      else None)"

definition event_of_row :: "pylib \<Rightarrow> bool \<Rightarrow> row \<Rightarrow> event_record option" where
  "event_of_row L has_category row =
     (case parse L (dict_get row ''date'') of
        None \<Rightarrow> None
      | Some d \<Rightarrow>
          if strip (or_empty (dict_get row ''event'')) = [] then None
          else Some \<lparr>ev_date = isoformat d, ev_event = strip (or_empty (dict_get row ''event'')),
                  ev_category = category_of has_category row\<rparr>)"

text \<open>A change-point entry that the normalizer accepts: an object whose \<open>date\<close> parses.\<close>

definition has_valid_date :: "pylib \<Rightarrow> json \<Rightarrow> bool" where
  "has_valid_date L cp = (case cp of JObj kv \<Rightarrow> cp_date L kv \<noteq> None | _ \<Rightarrow> False)"

definition entry_error :: "nat \<Rightarrow> json \<Rightarrow> validation_error" where
  "entry_error idx cp =
     (case cp of
        JObj kv \<Rightarrow>
          ValidationError (''change_points['' @ str_nat idx
            @ ''].date is required and must be a valid date'') 400
      | _ \<Rightarrow> ValidationError (''change_points['' @ str_nat idx @ ''] must be an object'') 400)"

text \<open>The recognized optional keys that an entry has, in the fixed order, each with the
  entry's own value.\<close>

definition present_optional :: "(string \<times> json) list \<Rightarrow> (string \<times> json) list" where
  "present_optional cp =
     List.map_filter (\<lambda>k. map_option (Pair k) (map_of cp k))
       [''mean_before'', ''mean_after'', ''impact_pct'', ''notes'']"

definition normalizes :: "pylib \<Rightarrow> json \<Rightarrow> json \<Rightarrow> bool" where
  "normalizes L cp out =
     (case cp of
        JObj kv \<Rightarrow>
          (case cp_date L kv of
             None \<Rightarrow> False
           | Some d \<Rightarrow> out = JObj ((''date'', JStr (isoformat d)) # present_optional kv))
      | _ \<Rightarrow> False)"

section \<open>Example files\<close>

definition paths0 :: data_paths where
  "paths0 = \<lparr>prices = ''data/brent_prices.csv'', alt_prices = ''data/BrentOilPrices.csv'',
     events = ''data/events.csv'', change_points = ''data/change_points.json''\<rparr>"

text \<open>A row from its cells, in the header's order.\<close>

definition mk_row :: "(string \<times> string) list \<Rightarrow> row" where
  "mk_row cells = map_of (map (\<lambda>(k, v). (k, Some v)) cells)"

text \<open>A data directory that holds one file only.\<close>

definition csv_only :: "path \<Rightarrow> row list \<Rightarrow> files" where
  "csv_only p rows =
     \<lparr>path_exists = (\<lambda>q. q = p),
      csv_rows = (\<lambda>q. if q = p then Inr rows else Inl ''[Errno 2] No such file or directory''),
      json_doc = (\<lambda>q. Inl ''[Errno 2] No such file or directory'')\<rparr>"

definition json_only :: "path \<Rightarrow> json \<Rightarrow> files" where
  "json_only p doc =
     \<lparr>path_exists = (\<lambda>q. q = p),
      csv_rows = (\<lambda>q. Inl ''[Errno 2] No such file or directory''),
      json_doc = (\<lambda>q. if q = p then Inr doc else Inl ''[Errno 2] No such file or directory'')\<rparr>"

definition no_files :: files where
  "no_files =
     \<lparr>path_exists = (\<lambda>q. False),
      csv_rows = (\<lambda>q. Inl ''[Errno 2] No such file or directory''),
      json_doc = (\<lambda>q. Inl ''[Errno 2] No such file or directory'')\<rparr>"

definition spec_price_rows :: "row list" where
  "spec_price_rows =
     [mk_row [(''Date'', ''2020-01-01''), (''Price'', ''1,234.5'')],
      mk_row [(''Date'', ''bad''), (''Price'', ''10'')],
      mk_row [(''Date'', ''2020-01-02''), (''Price'', ''notanumber'')]]"

definition single_price_row :: "row list" where
  "single_price_row = [mk_row [(''Date'', ''2020-01-01''), (''Price'', ''1,234.5'')]]"

definition blank_event_rows :: "row list" where
  "blank_event_rows = [mk_row [(''date'', ''2020-01-01''), (''event'', ''  '')]]"

(*THEOREMS*)

section \<open>Properties of the DateParser\<close>

lemma strip_blank:
  assumes "\<forall>c\<in>set s. isspace c"
  shows "strip s = []"
proof -
  from assms have blank: "dropWhile isspace s = []"
    by (induction s) auto
  show ?thesis
    unfolding strip_def blank by simp
qed

lemma strip_Nil: "strip [] = []"
  by (simp add: strip_def)

text \<open>
  C5. \<open>DateParser.parse\<close> is a total function into \<open>date | None\<close>: each \<open>ValueError\<close> of
  the library is caught and no other statement of it can raise. It returns \<open>None\<close> for
  \<open>None\<close>, for the empty string and for every string made of whitespace only, whatever the
  library would answer.
\<close>

theorem parse_blank:
  "parse L None = None \<and> parse L (Some []) = None
   \<and> ((\<forall>c\<in>set s. isspace c) \<longrightarrow> parse L (Some s) = None)"
  by (simp add: parse_def strip_blank strip_Nil)

theorem parse_blank_witness:
  "parse cpython (Some [CHR '' '', CHR 0x09, CHR 0x0A, CHR '' '']) = None"
  using parse_blank [of cpython "[CHR '' '', CHR 0x09, CHR 0x0A, CHR '' '']"]
  by (simp add: isspace_def)

lemma try_formats_first:
  "i < length fs \<Longrightarrow> \<forall>j<i. strptime L t (fs ! j) = None \<Longrightarrow> strptime L t (fs ! i) = Some d
   \<Longrightarrow> try_formats L t fs = Some d"
proof (induction fs arbitrary: i)
  case Nil
  then show ?case by simp
next
  case (Cons f fs)
  show ?case
  proof (cases i)
    case 0
    with Cons.prems show ?thesis by simp
  next
    case (Suc k)
    from Cons.prems Suc have "strptime L t f = None" by auto
    moreover from Cons.prems Suc have "try_formats L t fs = Some d"
      by (intro Cons.IH [of k]) auto
    ultimately show ?thesis by simp
  qed
qed

lemma try_formats_none:
  "\<forall>f\<in>set fs. strptime L t f = None \<Longrightarrow> try_formats L t fs = None"
  by (induction fs) auto

text \<open>
  C6. When the ISO fast path rejects the trimmed text, the formats are tried in the order
  \<open>%Y/%m/%d\<close>, \<open>%m/%d/%Y\<close>, \<open>%d/%m/%Y\<close>, \<open>%d-%b-%y\<close>, \<open>%d-%b-%Y\<close>: the result is the
  date of the first format that \<open>strptime\<close> accepts, and \<open>None\<close> when none does. So
  \<open>parse("03/04/2020")\<close> is the 4th of March 2020, although \<open>%d/%m/%Y\<close> would read the
  text as the 3rd of April.
\<close>

theorem parse_order:
  "formats = [''%Y/%m/%d'', ''%m/%d/%Y'', ''%d/%m/%Y'', ''%d-%b-%y'', ''%d-%b-%Y'']
   \<and> (\<forall>i d. strip s \<noteq> []
          \<and> fromisoformat L (replace_chr (CHR ''Z'') ''+00:00'' (strip s)) = None
          \<and> i < length formats
          \<and> (\<forall>j<i. strptime L (strip s) (formats ! j) = None)
          \<and> strptime L (strip s) (formats ! i) = Some d
        \<longrightarrow> parse L (Some s) = Some d)
   \<and> (strip s \<noteq> []
        \<and> fromisoformat L (replace_chr (CHR ''Z'') ''+00:00'' (strip s)) = None
        \<and> (\<forall>fmt\<in>set formats. strptime L (strip s) fmt = None)
        \<longrightarrow> parse L (Some s) = None)
   \<and> parse cpython (Some ''03/04/2020'') = Some (Date 2020 3 4)
   \<and> strptime cpython ''03/04/2020'' ''%d/%m/%Y'' = Some (Date 2020 4 3)"
proof (intro conjI allI impI)
  show "formats = [''%Y/%m/%d'', ''%m/%d/%Y'', ''%d/%m/%Y'', ''%d-%b-%y'', ''%d-%b-%Y'']"
    by (simp add: formats_def)
next
  fix i d
  assume a: "strip s \<noteq> []
      \<and> fromisoformat L (replace_chr (CHR ''Z'') ''+00:00'' (strip s)) = None
      \<and> i < length formats
      \<and> (\<forall>j<i. strptime L (strip s) (formats ! j) = None)
      \<and> strptime L (strip s) (formats ! i) = Some d"
  then have "try_formats L (strip s) formats = Some d"
    by (intro try_formats_first [of i]) auto
  with a show "parse L (Some s) = Some d"
    by (simp add: parse_def)
next
  assume a: "strip s \<noteq> []
      \<and> fromisoformat L (replace_chr (CHR ''Z'') ''+00:00'' (strip s)) = None
      \<and> (\<forall>fmt\<in>set formats. strptime L (strip s) fmt = None)"
  then have "try_formats L (strip s) formats = None"
    by (intro try_formats_none) auto
  with a show "parse L (Some s) = None"
    by (simp add: parse_def)
next
  show "parse cpython (Some ''03/04/2020'') = Some (Date 2020 3 4)"
    by code_simp
next
  show "strptime cpython ''03/04/2020'' ''%d/%m/%Y'' = Some (Date 2020 4 3)"
    by code_simp
qed

lemma slash_date_facts:
  "strip ''03/04/2020'' = ''03/04/2020''"
  "fromisoformat cpython (replace_chr (CHR ''Z'') ''+00:00'' ''03/04/2020'') = None"
  "strptime cpython ''03/04/2020'' ''%Y/%m/%d'' = None"
  "strptime cpython ''03/04/2020'' ''%m/%d/%Y'' = Some (Date 2020 3 4)"
  by code_simp+

theorem parse_order_witness:
  "strip ''03/04/2020'' \<noteq> []
   \<and> fromisoformat cpython (replace_chr (CHR ''Z'') ''+00:00'' (strip ''03/04/2020'')) = None
   \<and> (1::nat) < length formats
   \<and> strptime cpython (strip ''03/04/2020'') (formats ! 0) = None
   \<and> strptime cpython (strip ''03/04/2020'') (formats ! 1) = Some (Date 2020 3 4)
   \<and> parse cpython (Some ''03/04/2020'') = Some (Date 2020 3 4)"
  using parse_order [of "''03/04/2020''" cpython]
  by (simp add: slash_date_facts formats_def)

section \<open>The loops and the pipelines\<close>

lemma prices_loop_eq:
  "prices_loop L start endd rows (payload, a, b) =
     (payload @ List.map_filter (price_of_row L start endd) rows,
      a + length (filter (invalid_date_row L ''Date'') rows),
      b + length (filter (invalid_price_row L) rows))"
proof (induction rows arbitrary: payload a b)
  case Nil
  then show ?case by simp
next
  case (Cons row rows)
  show ?case
    by (simp add: Cons.IH price_of_row_def invalid_date_row_def
        invalid_price_row_def price_text_def split: option.splits)
qed

lemma category_of_alt:
  "category_of hc row = (if hc then or_none (dict_get row ''category'') else None)"
  by (simp add: category_of_def or_none_def split: option.splits)

lemma events_loop_eq:
  "events_loop L hc rows (payload, a, b) =
     (payload @ List.map_filter (event_of_row L hc) rows,
      a + length (filter (invalid_date_row L ''date'') rows),
      b + length (filter (invalid_event_row L) rows))"
proof (induction rows arbitrary: payload a b)
  case Nil
  then show ?case by simp
next
  case (Cons row rows)
  show ?case
  proof (cases "parse L (dict_get row ''date'')")
    case None
    then show ?thesis
      by (simp add: Cons.IH event_of_row_def invalid_date_row_def invalid_event_row_def)
  next
    case (Some d)
    show ?thesis
    proof (cases "strip (or_empty (dict_get row ''event'')) = []")
      case True
      with Some show ?thesis
        by (simp add: Cons.IH event_of_row_def invalid_date_row_def invalid_event_row_def)
    next
      case False
      with Some show ?thesis
        by (simp add: Cons.IH event_of_row_def invalid_date_row_def invalid_event_row_def
            category_of_alt Let_def split del: if_split)
    qed
  qed
qed

lemma sort_key_Nil_iff: "sort_key f xs = [] \<longleftrightarrow> xs = []"
  by (metis length_0_conv length_sort)

text \<open>\<open>get_prices\<close> once the file is read, the header checked and the bounds parsed.\<close>

lemma get_prices_rows:
  assumes "path_exists F (select_prices_path P F)"
    and "csv_rows F (select_prices_path P F) = Inr rows"
    and "rows \<noteq> []"
    and "has_key (hd rows) ''Date''" and "has_key (hd rows) ''Price''"
    and "parse_query_dates L start_raw end_raw = Inr (start, endd)"
  shows "get_prices L P F start_raw end_raw =
     (if List.map_filter (price_of_row L start endd) rows = []
         \<and> (length (filter (invalid_date_row L ''Date'') rows) \<noteq> 0
            \<or> length (filter (invalid_price_row L) rows) \<noteq> 0)
      then Inl (no_valid_prices (length (filter (invalid_date_row L ''Date'') rows))
                  (length (filter (invalid_price_row L) rows)))
      else Inr (sort_key pp_date (List.map_filter (price_of_row L start endd) rows)))"
proof -
  from assms(3) obtain row0 rest where rows: "rows = row0 # rest"
    by (cases rows) auto
  have loop: "prices_loop L start endd rows ([], 0, 0) =
      (List.map_filter (price_of_row L start endd) rows,
       length (filter (invalid_date_row L ''Date'') rows),
       length (filter (invalid_price_row L) rows))"
    by (simp add: prices_loop_eq)
  from assms(4,5) rows have header: "has_key row0 ''Date''" "has_key row0 ''Price''"
    by simp_all
  show ?thesis
    unfolding get_prices_def Let_def read_rows_def
    using assms(1,2,6) header loop
    by (simp add: rows sort_key_Nil_iff del: prices_loop.simps)
qed

lemma get_events_rows:
  assumes "path_exists F (events P)"
    and "csv_rows F (events P) = Inr rows"
    and "rows \<noteq> []"
    and "has_key (hd rows) ''date''" and "has_key (hd rows) ''event''"
  shows "get_events L P F =
     (if List.map_filter (event_of_row L (has_key (hd rows) ''category'')) rows = []
         \<and> (length (filter (invalid_date_row L ''date'') rows) \<noteq> 0
            \<or> length (filter (invalid_event_row L) rows) \<noteq> 0)
      then Inl (no_valid_events (length (filter (invalid_date_row L ''date'') rows))
                  (length (filter (invalid_event_row L) rows)))
      else Inr (sort_key ev_date
                  (List.map_filter (event_of_row L (has_key (hd rows) ''category'')) rows)))"
proof -
  from assms(3) obtain row0 rest where rows: "rows = row0 # rest"
    by (cases rows) auto
  have loop: "events_loop L (has_key row0 ''category'') rows ([], 0, 0) =
      (List.map_filter (event_of_row L (has_key row0 ''category'')) rows,
       length (filter (invalid_date_row L ''date'') rows),
       length (filter (invalid_event_row L) rows))"
    by (simp add: events_loop_eq)
  from assms(4,5) rows have header: "has_key row0 ''date''" "has_key row0 ''event''"
    by simp_all
  show ?thesis
    unfolding get_events_def Let_def read_rows_def
    using assms(1,2) header loop
    by (simp add: rows sort_key_Nil_iff del: events_loop.simps)
qed

end
